theory Spec2Isabelle
  imports Complex_Main
begin

section \<open>Python values, exceptions and paths\<close>

text \<open>
  The program is \<^verbatim>\<open>src/validator.py\<close>. Exceptions are values: a function that can raise
  returns \<open>py_exception + 'a\<close>, with \<open>Inl\<close> for the exception that propagates.
\<close>

datatype py_exception = IndexError | ValueError | LibraryError string

text \<open>
  A \<^verbatim>\<open>pathlib.Path\<close> is used by the program through two views only: \<^verbatim>\<open>.parts\<close>
  (in \<^verbatim>\<open>infer_schema_path\<close>) and its text (in \<^verbatim>\<open>open\<close> and in the printed messages).
  The record keeps both; it does not relate them, so every real path is an instance.
\<close>

record pypath =
  parts :: "string list"
  as_str :: string

text \<open>\<^verbatim>\<open>tuple.index(x)\<close>: the position of the first element equal to \<open>x\<close>, \<^verbatim>\<open>ValueError\<close> when
  there is none.\<close>

fun tuple_index :: "'a list \<Rightarrow> 'a \<Rightarrow> py_exception + nat" where
  "tuple_index [] x = Inl ValueError"
| "tuple_index (y # ys) x =
     (if y = x then Inr 0
      else (case tuple_index ys x of Inl e \<Rightarrow> Inl e | Inr i \<Rightarrow> Inr (Suc i)))"

text \<open>\<^verbatim>\<open>t[i]\<close> for a non-negative index: \<^verbatim>\<open>IndexError\<close> when \<open>i\<close> is out of range.\<close>

definition subscript :: "'a list \<Rightarrow> nat \<Rightarrow> py_exception + 'a" where
  "subscript xs i = (if i < length xs then Inr (xs ! i) else Inl IndexError)"

section \<open>Schema path inference\<close>

text \<open>
  \<^verbatim>\<open>Path(f"schemas/{category}/{category}.schema.json")\<close>. A component of a path holds no
  separator, so the new path has the three components below and the text of the f-string.
\<close>

definition schema_path_for :: "string \<Rightarrow> pypath" where
  "schema_path_for category =
     \<lparr> parts = [''schemas'', category, category @ ''.schema.json''],
       as_str = ''schemas/'' @ category @ ''/'' @ category @ ''.schema.json'' \<rparr>"

text \<open>
  \<^verbatim>\<open>
  def infer_schema_path(yaml_file):
      parts = yaml_file.parts
      if 'samples' in parts:
          idx = parts.index('samples')
          category = parts[idx + 1]
          return Path(f"schemas/{category}/{category}.schema.json")
      return None
  \<close>
\<close>

definition infer_schema_path :: "pypath \<Rightarrow> py_exception + pypath option" where
  "infer_schema_path yaml_file =
     (let ps = parts yaml_file in
      if ''samples'' \<in> set ps then
        (case tuple_index ps ''samples'' of
           Inl e \<Rightarrow> Inl e
         | Inr idx \<Rightarrow>
             (case subscript ps (idx + 1) of
                Inl e \<Rightarrow> Inl e
              | Inr category \<Rightarrow> Inr (Some (schema_path_for category))))
      else Inr None)"

section \<open>Documents, violations and the validation call\<close>

text \<open>
  The value \<^verbatim>\<open>yaml.safe_load\<close> returns, for the documents of the specification (mappings,
  sequences and the scalars string, number, bool and null): \<^verbatim>\<open>None\<close>, a bool, an int, a
  float, a str, a list or a dict, here with string keys in the order of the document. A
  float is kept by its exact value (finite floats only); the tag keeps it apart from an
  int of the same value.
\<close>

datatype yaml =
    YNull
  | YBool bool
  | YInt int
  | YFloat rat
  | YStr string
  | YSeq "yaml list"
  | YMap "(string \<times> yaml) list"

text \<open>Python's truth value of such an object, as \<^verbatim>\<open>not self.data\<close> tests it.\<close>

fun truthy :: "yaml \<Rightarrow> bool" where
  "truthy YNull = False"
| "truthy (YBool b) = b"
| "truthy (YInt i) = (i \<noteq> 0)"
| "truthy (YFloat r) = (r \<noteq> 0)"
| "truthy (YStr s) = (s \<noteq> [])"
| "truthy (YSeq xs) = (xs \<noteq> [])"
| "truthy (YMap kvs) = (kvs \<noteq> [])"

text \<open>A path segment is a key name or a zero-based index.\<close>

datatype seg = Key string | Index nat

text \<open>The three attributes of a \<^verbatim>\<open>jsonschema.ValidationError\<close> that the program reads:
  \<^verbatim>\<open>e.message\<close>, \<^verbatim>\<open>e.path\<close> and \<^verbatim>\<open>e.schema_path\<close>.\<close>

datatype validation_error =
  ValidationError (message: string) (path: "seg list") (schema_path: "seg list")

text \<open>
  How one call \<^verbatim>\<open>jsonschema.validate(instance=..., schema=...)\<close> ends: it returns, or it
  raises \<^verbatim>\<open>ValidationError\<close>, \<^verbatim>\<open>SchemaError\<close> (with its message) or something else.
\<close>

datatype raised =
    Returned
  | Raised_ValidationError validation_error
  | Raised_SchemaError string
  | Raised_Other string

text \<open>
  What a run does to the outside, in order: a line printed to standard output, a line
  echoed to standard error, a call of \<^verbatim>\<open>jsonschema.validate\<close> with its two arguments.
\<close>

datatype 's event = Print string | Echo_err string | Validate_call yaml 's

text \<open>
  How opening and parsing a file ends: the parsed value, \<^verbatim>\<open>FileNotFoundError\<close>, the parser's
  own error (\<^verbatim>\<open>json.JSONDecodeError\<close>, \<^verbatim>\<open>yaml.YAMLError\<close>) or any other \<^verbatim>\<open>Exception\<close>, the
  last two with the text of the exception.
\<close>

datatype 'a read = Loaded 'a | FileNotFound | ParseFailure string | OtherFailure string

text \<open>
  Everything outside the program that a run depends on: the files (by the text of their
  path), the \<^verbatim>\<open>jsonschema\<close> library, and for the command line whether a path exists
  (\<^verbatim>\<open>os.stat\<close> finds it) and whether it is readable (\<^verbatim>\<open>os.access\<close> with \<^verbatim>\<open>R_OK\<close>). The schema
  is whatever \<^verbatim>\<open>json.load\<close> returns; the program never looks inside it, so its type is a
  parameter.
\<close>

record 's env =
  read_json :: "string \<Rightarrow> 's read"
  read_yaml :: "string \<Rightarrow> yaml read"
  jsonschema_validate :: "yaml \<Rightarrow> 's \<Rightarrow> raised"
  path_exists :: "string \<Rightarrow> bool"
  path_readable :: "string \<Rightarrow> bool"

section \<open>Text helpers\<close>

definition apostrophe :: string where
  "apostrophe = [CHR 0x27]"

definition newline :: string where
  "newline = [CHR 0x0A]"

text \<open>The UTF-8 bytes of U+2717 (ballot x) and U+2713 (check mark).\<close>

definition ballot_x :: string where
  "ballot_x = [CHR 0xE2, CHR 0x9C, CHR 0x97]"

definition check_mark :: string where
  "check_mark = [CHR 0xE2, CHR 0x9C, CHR 0x93]"

text \<open>\<^verbatim>\<open>sep.join(xs)\<close>.\<close>

fun join :: "string \<Rightarrow> string list \<Rightarrow> string" where
  "join sep [] = []"
| "join sep [x] = x"
| "join sep (x # y # ys) = x @ sep @ join sep (y # ys)"

text \<open>\<^verbatim>\<open>str(n)\<close> for a non-negative int: its decimal digits.\<close>

definition digit :: "nat \<Rightarrow> char" where
  "digit d = ''0123456789'' ! d"

fun str_nat :: "nat \<Rightarrow> string" where
  "str_nat n = (if n < 10 then [digit n] else str_nat (n div 10) @ [digit (n mod 10)])"

text \<open>\<^verbatim>\<open>str(p)\<close> for a path segment.\<close>

fun str_seg :: "seg \<Rightarrow> string" where
  "str_seg (Key k) = k"
| "str_seg (Index i) = str_nat i"

section \<open>The validator class\<close>

text \<open>
  \<^verbatim>\<open>
  def load_json_schema(path_):
      try:
          with open(path_) as json_schema_file:
              json_schema = json.load(json_schema_file)
              return True, json_schema
      except FileNotFoundError:
          print(f"Error: Schema file '{path_}' not found"); return False, None
      except json.JSONDecodeError as e:
          print(f"Error parsing JSON schema: {e}"); return False, None
      except Exception as e:
          print(f"Error reading JSON schema file: {e}"); return False, None
  \<close>
  The parameter \<^verbatim>\<open>path_\<close> is \<open>path_arg\<close> here. The second component of the result is
  \<open>None\<close> for Python's \<^verbatim>\<open>None\<close>, which is returned exactly together with \<^verbatim>\<open>False\<close>.
\<close>

definition load_json_schema :: "'s env \<Rightarrow> pypath \<Rightarrow> (bool \<times> 's option) \<times> 's event list" where
  "load_json_schema w path_arg =
     (case read_json w (as_str path_arg) of
        Loaded json_schema \<Rightarrow> ((True, Some json_schema), [])
      | FileNotFound \<Rightarrow>
          ((False, None),
           [Print (''Error: Schema file '' @ apostrophe @ as_str path_arg @ apostrophe @ '' not found'')])
      | ParseFailure e \<Rightarrow> ((False, None), [Print (''Error parsing JSON schema: '' @ e)])
      | OtherFailure e \<Rightarrow> ((False, None), [Print (''Error reading JSON schema file: '' @ e)]))"

text \<open>The fields of a \<^verbatim>\<open>YamlSchemaValidator\<close>; \<^verbatim>\<open>__init__\<close> sets \<^verbatim>\<open>self.data = None\<close>.\<close>

record 's validator =
  yaml_file :: pypath
  data :: yaml
  schema :: 's

definition init :: "pypath \<Rightarrow> 's \<Rightarrow> 's validator" where
  "init yaml_file_arg schema_object =
     \<lparr> yaml_file = yaml_file_arg, data = YNull, schema = schema_object \<rparr>"

text \<open>
  \<^verbatim>\<open>
  def load_yaml(self):
      try:
          with open(self.yaml_file) as f:
              self.data = yaml.safe_load(f)
          return True
      except FileNotFoundError:
          print(f"Error: File '{self.yaml_file}' not found"); return False
      except yaml.YAMLError as e:
          print(f"Error parsing YAML: {e}"); return False
      except Exception as e:
          print(f"Error reading YAML file: {e}"); return False
  \<close>
  The result is the returned bool, what was printed, and the validator afterwards.
\<close>

definition load_yaml :: "'s env \<Rightarrow> 's validator \<Rightarrow> bool \<times> 's event list \<times> 's validator" where
  "load_yaml w self =
     (case read_yaml w (as_str (yaml_file self)) of
        Loaded d \<Rightarrow> (True, [], self\<lparr>data := d\<rparr>)
      | FileNotFound \<Rightarrow>
          (False,
           [Print (''Error: File '' @ apostrophe @ as_str (yaml_file self) @ apostrophe @ '' not found'')],
           self)
      | ParseFailure e \<Rightarrow> (False, [Print (''Error parsing YAML: '' @ e)], self)
      | OtherFailure e \<Rightarrow> (False, [Print (''Error reading YAML file: '' @ e)], self))"

text \<open>
  The body of the handler \<^verbatim>\<open>except ValidationError as e\<close> up to its \<^verbatim>\<open>return False\<close>:
  \<^verbatim>\<open>
  print(f"Validation Error: {e.message}")
  path_str = ' -> '.join(str(p) for p in e.path) if e.path else 'root'
  print(f"Failed at: {path_str}")
  if e.schema_path:
      schema_path_str = ' -> '.join(str(p) for p in e.schema_path)
      print(f"Schema path: {schema_path_str}")
  \<close>
\<close>

definition path_str :: "seg list \<Rightarrow> string" where
  "path_str p = (if p \<noteq> [] then join '' -> '' (map str_seg p) else ''root'')"

definition report_validation_error :: "validation_error \<Rightarrow> string list" where
  "report_validation_error e =
     [''Validation Error: '' @ message e,
      ''Failed at: '' @ path_str (path e)]
     @ (if schema_path e \<noteq> []
        then [''Schema path: '' @ join '' -> '' (map str_seg (schema_path e))]
        else [])"

text \<open>
  \<^verbatim>\<open>
  def validate(self):
      if not self.data:
          print("Error: No data loaded. Call load_yaml() first."); return False
      try:
          validate(instance=self.data, schema=self.schema)
          return True
      except ValidationError as e:
          ...; return False
      except SchemaError as e:
          print(f"Schema Error: {e.message}"); return False
  \<close>
  Any other exception of the library has no handler and propagates (\<open>Inl\<close>).
\<close>

definition validate :: "'s env \<Rightarrow> 's validator \<Rightarrow> (py_exception + bool) \<times> 's event list" where
  "validate w self =
     (if \<not> truthy (data self)
      then (Inr False, [Print ''Error: No data loaded. Call load_yaml() first.''])
      else
        (case jsonschema_validate w (data self) (schema self) of
           Returned \<Rightarrow> (Inr True, [Validate_call (data self) (schema self)])
         | Raised_ValidationError e \<Rightarrow>
             (Inr False,
              Validate_call (data self) (schema self) # map Print (report_validation_error e))
         | Raised_SchemaError m \<Rightarrow>
             (Inr False,
              [Validate_call (data self) (schema self), Print (''Schema Error: '' @ m)])
         | Raised_Other x \<Rightarrow>
             (Inl (LibraryError x), [Validate_call (data self) (schema self)])))"

text \<open>
  \<^verbatim>\<open>
  def validate_and_report(self):
      print(f"Validating: {self.yaml_file}")
      print("-" * 80)
      if not self.load_yaml():
          print("\n(ballot x) Validation failed\n"); return False
      if self.validate():
          print("(check mark) Validation successful")
          print(f"\nFile '{self.yaml_file}' is valid according to the schema.\n")
          return True
      else:
          print("\n(ballot x) Validation failed\n"); return False
  \<close>
\<close>

definition failed_banner :: string where
  "failed_banner = newline @ ballot_x @ '' Validation failed'' @ newline"

definition validate_and_report ::
  "'s env \<Rightarrow> 's validator \<Rightarrow> (py_exception + bool) \<times> 's event list" where
  "validate_and_report w self =
     (let header = [Print (''Validating: '' @ as_str (yaml_file self)),
                    Print (replicate 80 (CHR ''-''))]
      in case load_yaml w self of
           (False, out1, self1) \<Rightarrow> (Inr False, header @ out1 @ [Print failed_banner])
         | (True, out1, self1) \<Rightarrow>
             (case validate w self1 of
                (Inl x, out2) \<Rightarrow> (Inl x, header @ out1 @ out2)
              | (Inr True, out2) \<Rightarrow>
                  (Inr True,
                   header @ out1 @ out2 @
                   [Print (check_mark @ '' Validation successful''),
                    Print (newline @ ''File '' @ apostrophe @ as_str (yaml_file self1) @ apostrophe
                           @ '' is valid according to the schema.'' @ newline)])
              | (Inr False, out2) \<Rightarrow>
                  (Inr False, header @ out1 @ out2 @ [Print failed_banner])))"

section \<open>The command line\<close>

text \<open>
  \<^verbatim>\<open>main\<close> ends by \<^verbatim>\<open>sys.exit(n)\<close> (\<open>Inr n\<close>) or by an exception nobody catches (\<open>Inl\<close>).
  Its arguments are the paths \<^verbatim>\<open>Path(yaml_file)\<close> and \<^verbatim>\<open>Path(schema_file)\<close>, \<open>None\<close> when the
  second argument was not given. A \<^verbatim>\<open>Path\<close> object is always true, so \<^verbatim>\<open>not schema_path\<close>
  holds exactly for \<^verbatim>\<open>None\<close>. \<^verbatim>\<open>load_json_schema\<close> never returns \<^verbatim>\<open>True\<close> with \<open>None\<close>; the
  case is there for completeness only. The local variable \<^verbatim>\<open>schema_path\<close> is \<open>the_schema_path\<close>.
\<close>

definition main :: "'s env \<Rightarrow> pypath \<Rightarrow> pypath option \<Rightarrow> (py_exception + nat) \<times> 's event list" where
  "main w yaml_path schema_file =
     (let resolved =
            (case schema_file of
               None \<Rightarrow>
                 (case infer_schema_path yaml_path of
                    Inl e \<Rightarrow> Inl (Inl e, [])
                  | Inr None \<Rightarrow>
                      Inl (Inr 1,
                           [Echo_err (''Error: Could not infer schema path for '' @ apostrophe
                                      @ as_str yaml_path @ apostrophe),
                            Echo_err ''Please provide schema file as second argument''])
                  | Inr (Some the_schema_path) \<Rightarrow> Inr the_schema_path)
             | Some given \<Rightarrow> Inr given)
      in case resolved of
           Inl stop \<Rightarrow> stop
         | Inr the_schema_path \<Rightarrow>
             (case load_json_schema w the_schema_path of
                ((False, _), out1) \<Rightarrow> (Inr 1, out1)
              | ((True, None), out1) \<Rightarrow> (Inr 1, out1)
              | ((True, Some schema_object), out1) \<Rightarrow>
                  (case validate_and_report w (init yaml_path schema_object) of
                     (Inl x, out2) \<Rightarrow> (Inl x, out1 @ out2)
                   | (Inr True, out2) \<Rightarrow> (Inr 0, out1 @ out2)
                   | (Inr False, out2) \<Rightarrow> (Inr 1, out1 @ out2))))"

text \<open>
  \<^verbatim>\<open>main\<close> is a \<^verbatim>\<open>click.command\<close> with the arguments \<^verbatim>\<open>yaml_file\<close> and \<^verbatim>\<open>schema_file\<close>, the
  second one optional, both of type \<^verbatim>\<open>click.Path(exists=True)\<close>. Before \<^verbatim>\<open>main\<close> runs,
  \<^verbatim>\<open>click\<close> parses the command line. What it makes of it is one of three things: the help
  option was given; the command line is rejected (an argument is missing, there is one
  too many, an option is unknown); or it holds the one or two path arguments.
\<close>

datatype command_line = Help_requested | Rejected | Arguments pypath "pypath option"

text \<open>
  The two statuses are those of \<^verbatim>\<open>click\<close>, not of the program: the help option ends the
  run through \<^verbatim>\<open>ctx.exit()\<close>, status 0, and a usage error ends it with
  \<^verbatim>\<open>UsageError.exit_code\<close>, which is 2.
\<close>

definition help_exit_code :: nat where
  "help_exit_code = 0"

definition usage_exit_code :: nat where
  "usage_exit_code = 2"

text \<open>
  \<^verbatim>\<open>click.Path(exists=True)\<close> keeps the default \<^verbatim>\<open>readable=True\<close>: a path argument is
  accepted when it exists and is readable; files and directories are both allowed.
\<close>

definition path_accepted :: "'s env \<Rightarrow> pypath \<Rightarrow> bool" where
  "path_accepted w p = (path_exists w (as_str p) \<and> path_readable w (as_str p))"

text \<open>
  A run from the command line: the help option first, then the arguments in their order,
  each a usage error when it is not accepted, then \<^verbatim>\<open>main\<close>. What \<^verbatim>\<open>click\<close> itself prints
  is left out of the events.
\<close>

definition cli :: "'s env \<Rightarrow> command_line \<Rightarrow> (py_exception + nat) \<times> 's event list" where
  "cli w cl =
     (case cl of
        Help_requested \<Rightarrow> (Inr help_exit_code, [])
      | Rejected \<Rightarrow> (Inr usage_exit_code, [])
      | Arguments yaml_path schema_file \<Rightarrow>
          if \<not> path_accepted w yaml_path then (Inr usage_exit_code, [])
          else (case schema_file of
                  Some given \<Rightarrow>
                    if \<not> path_accepted w given then (Inr usage_exit_code, [])
                    else main w yaml_path schema_file
                | None \<Rightarrow> main w yaml_path schema_file))"

text \<open>The status of the process: the argument of \<^verbatim>\<open>sys.exit\<close>, and 1 when the interpreter
  ends on an exception nobody caught.\<close>

fun exit_status :: "py_exception + nat \<Rightarrow> nat" where
  "exit_status (Inl e) = 1"
| "exit_status (Inr n) = n"

section \<open>The Validation Engine of the specification\<close>

text \<open>
  Modelled from the spec: the Validation Engine (section 4.4). In the program it is the
  imported function \<^verbatim>\<open>jsonschema.validate\<close>, whose code is not part of the sources. The
  model covers the schemas built from the keywords \<^verbatim>\<open>type\<close>, \<^verbatim>\<open>required\<close>, \<^verbatim>\<open>properties\<close>,
  \<^verbatim>\<open>items\<close>, \<^verbatim>\<open>allOf\<close>, \<^verbatim>\<open>anyOf\<close>, \<^verbatim>\<open>oneOf\<close> and \<^verbatim>\<open>not\<close>; a schema with another keyword
  (\<^verbatim>\<open>enum\<close>, \<^verbatim>\<open>const\<close>, \<^verbatim>\<open>pattern\<close>, \<^verbatim>\<open>format\<close>, \<^verbatim>\<open>additionalProperties\<close>, \<^verbatim>\<open>additionalItems\<close>)
  is not a value of the type. A schema is the list of its keywords in the order of their
  declaration.
\<close>

datatype schema = Schema "keyword list"
  and keyword =
    Type_kw string
  | Required_kw "string list"
  | Properties_kw "(string \<times> schema) list"
  | Items_kw schema
  | AllOf_kw "schema list"
  | AnyOf_kw "schema list"
  | OneOf_kw "schema list"
  | Not_kw schema

text \<open>
  Modelled from the spec: \<^verbatim>\<open>type\<close> is a match of the kind of the value, and "integers are a
  subtype of numbers, but the reverse does not hold", the distinction being the tag of the
  value.
\<close>

fun type_matches :: "string \<Rightarrow> yaml \<Rightarrow> bool" where
  "type_matches t YNull = (t = ''null'')"
| "type_matches t (YBool b) = (t = ''boolean'')"
| "type_matches t (YInt i) = (t = ''integer'' \<or> t = ''number'')"
| "type_matches t (YFloat r) = (t = ''number'')"
| "type_matches t (YStr s) = (t = ''string'')"
| "type_matches t (YSeq xs) = (t = ''array'')"
| "type_matches t (YMap kvs) = (t = ''object'')"

text \<open>
  Modelled from the spec: the violation each keyword reports. The failure path is empty at
  the node that violates the constraint and the schema path is the keyword (scenarios B
  and C of section 8). The spec fixes no wording for the messages; these are the model's.
\<close>

definition type_violation :: "string \<Rightarrow> validation_error" where
  "type_violation t =
     ValidationError (''value is not of type '' @ apostrophe @ t @ apostrophe) [] [Key ''type'']"

definition required_violation :: "string \<Rightarrow> validation_error" where
  "required_violation n =
     ValidationError (apostrophe @ n @ apostrophe @ '' is a required property'') []
       [Key ''required'']"

definition any_of_violation :: validation_error where
  "any_of_violation =
     ValidationError ''value is not valid under any of the given schemas'' [] [Key ''anyOf'']"

definition one_of_violation :: validation_error where
  "one_of_violation =
     ValidationError ''value is not valid under exactly one of the given schemas'' []
       [Key ''oneOf'']"

definition not_violation :: validation_error where
  "not_violation =
     ValidationError ''value should not be valid under the given schema'' [] [Key ''not'']"

text \<open>
  Modelled from the spec: "failurePath records the sequence of keys/indices traversed from
  the document root", "schemaPath records the parallel sequence of schema
  keywords/subschema keys". A violation found below a property, an item or a branch of
  \<^verbatim>\<open>allOf\<close> gets the step in front of its paths.
\<close>

definition under_property :: "string \<Rightarrow> validation_error \<Rightarrow> validation_error" where
  "under_property k e =
     ValidationError (message e) (Key k # path e) (Key ''properties'' # Key k # schema_path e)"

definition under_item :: "nat \<Rightarrow> validation_error \<Rightarrow> validation_error" where
  "under_item i e =
     ValidationError (message e) (Index i # path e) (Key ''items'' # schema_path e)"

definition under_all_of :: "nat \<Rightarrow> validation_error \<Rightarrow> validation_error" where
  "under_all_of j e =
     ValidationError (message e) (path e) (Key ''allOf'' # Index j # schema_path e)"

text \<open>Modelled from the spec: \<^verbatim>\<open>required\<close> is the presence of keys in a mapping; these are
  the required names the mapping lacks, in the order of the schema.\<close>

definition missing :: "string list \<Rightarrow> (string \<times> yaml) list \<Rightarrow> string list" where
  "missing names entries = filter (\<lambda>n. n \<notin> set (map fst entries)) names"

text \<open>
  Modelled from the spec: the recursive walk that stops at the first violation
  (section 4.4, steps 1 and 2). The keywords of a node are taken in the order of their
  declaration, the keys of a mapping and the items of a sequence in the order of the
  document, the branches of a combinator in the order of their declaration. \<^verbatim>\<open>anyOf\<close> holds
  when at least one branch accepts the value, \<^verbatim>\<open>oneOf\<close> when exactly one does, \<^verbatim>\<open>not\<close>
  when its schema rejects it; \<open>count_valid\<close> counts the branches that accept. Which of
  several violations is reported is this order of the specification; nothing below rests
  on it, every document used there has one violation at most.
\<close>

function (sequential) first_violation :: "yaml \<Rightarrow> schema \<Rightarrow> validation_error option"
  and fv_keywords :: "yaml \<Rightarrow> keyword list \<Rightarrow> validation_error option"
  and fv_keyword :: "yaml \<Rightarrow> keyword \<Rightarrow> validation_error option"
  and fv_properties :: "(string \<times> yaml) list \<Rightarrow> (string \<times> schema) list \<Rightarrow> validation_error option"
  and fv_items :: "yaml list \<Rightarrow> nat \<Rightarrow> schema \<Rightarrow> validation_error option"
  and fv_all_of :: "yaml \<Rightarrow> nat \<Rightarrow> schema list \<Rightarrow> validation_error option"
  and count_valid :: "yaml \<Rightarrow> schema list \<Rightarrow> nat"
where
  "first_violation d (Schema kws) = fv_keywords d kws"
| "fv_keywords d [] = None"
| "fv_keywords d (k # ks) =
     (case fv_keyword d k of Some e \<Rightarrow> Some e | None \<Rightarrow> fv_keywords d ks)"
| "fv_keyword d (Type_kw t) = (if type_matches t d then None else Some (type_violation t))"
| "fv_keyword d (Required_kw names) =
     (case d of
        YMap entries \<Rightarrow>
          (case missing names entries of [] \<Rightarrow> None | n # _ \<Rightarrow> Some (required_violation n))
      | _ \<Rightarrow> None)"
| "fv_keyword d (Properties_kw props) =
     (case d of YMap entries \<Rightarrow> fv_properties entries props | _ \<Rightarrow> None)"
| "fv_keyword d (Items_kw s) =
     (case d of YSeq xs \<Rightarrow> fv_items xs 0 s | _ \<Rightarrow> None)"
| "fv_keyword d (AllOf_kw ss) = fv_all_of d 0 ss"
| "fv_keyword d (AnyOf_kw ss) = (if 0 < count_valid d ss then None else Some any_of_violation)"
| "fv_keyword d (OneOf_kw ss) = (if count_valid d ss = 1 then None else Some one_of_violation)"
| "fv_keyword d (Not_kw s) =
     (case first_violation d s of None \<Rightarrow> Some not_violation | Some e \<Rightarrow> None)"
| "fv_properties [] props = None"
| "fv_properties ((k, v) # entries) props =
     (case map_of props k of
        None \<Rightarrow> fv_properties entries props
      | Some sub \<Rightarrow>
          (case first_violation v sub of
             Some e \<Rightarrow> Some (under_property k e)
           | None \<Rightarrow> fv_properties entries props))"
| "fv_items [] i s = None"
| "fv_items (x # xs) i s =
     (case first_violation x s of
        Some e \<Rightarrow> Some (under_item i e)
      | None \<Rightarrow> fv_items xs (Suc i) s)"
| "fv_all_of d j [] = None"
| "fv_all_of d j (s # ss) =
     (case first_violation d s of
        Some e \<Rightarrow> Some (under_all_of j e)
      | None \<Rightarrow> fv_all_of d (Suc j) ss)"
| "count_valid d [] = 0"
| "count_valid d (s # ss) =
     (case first_violation d s of None \<Rightarrow> Suc (count_valid d ss) | Some e \<Rightarrow> count_valid d ss)"
  by pat_completeness auto

termination
  by (relation "inv_image (less_than <*lex*> less_than)
        (\<lambda>x. case x of
           Inl (Inl (d, s)) \<Rightarrow> (size d, size s)
         | Inl (Inr (Inl (d, kws))) \<Rightarrow> (size d, size_list size kws)
         | Inl (Inr (Inr (d, k))) \<Rightarrow> (size d, size k)
         | Inr (Inl (Inl (es, ps))) \<Rightarrow> (size_list (size_prod (\<lambda>_. 0) size) es, 0)
         | Inr (Inl (Inr (xs, i, s))) \<Rightarrow> (size_list size xs, size s)
         | Inr (Inr (Inl (d, j, ss))) \<Rightarrow> (size d, size_list size ss)
         | Inr (Inr (Inr (d, ss))) \<Rightarrow> (size d, size_list size ss))")
     auto

text \<open>
  Modelled from the spec: the schema defects the engine can detect, "a \<^verbatim>\<open>type\<close> keyword with
  an unsupported value, a combinator referencing a non-existent subschema": a value of
  \<^verbatim>\<open>type\<close> that is no type name, and a combinator \<^verbatim>\<open>allOf\<close>, \<^verbatim>\<open>anyOf\<close> or \<^verbatim>\<open>oneOf\<close> without
  a subschema. These are the messages of the defects of a schema, in the order of their
  declaration; the wording is the model's.
\<close>

definition supported_types :: "string list" where
  "supported_types =
     [''null'', ''boolean'', ''object'', ''array'', ''number'', ''integer'', ''string'']"

definition combinator_defects :: "string \<Rightarrow> string list list \<Rightarrow> string list" where
  "combinator_defects name below =
     (if below = [] then [name @ '' has no subschema''] else concat below)"

fun schema_defects :: "schema \<Rightarrow> string list"
  and defects_in :: "keyword \<Rightarrow> string list"
where
  "schema_defects (Schema kws) = concat (map defects_in kws)"
| "defects_in (Type_kw t) =
     (if t \<in> set supported_types then []
      else [apostrophe @ t @ apostrophe @ '' is not a supported type''])"
| "defects_in (Required_kw names) = []"
| "defects_in (Properties_kw props) = concat (map (\<lambda>p. schema_defects (snd p)) props)"
| "defects_in (Items_kw s) = schema_defects s"
| "defects_in (AllOf_kw ss) = combinator_defects ''allOf'' (map schema_defects ss)"
| "defects_in (AnyOf_kw ss) = combinator_defects ''anyOf'' (map schema_defects ss)"
| "defects_in (OneOf_kw ss) = combinator_defects ''oneOf'' (map schema_defects ss)"
| "defects_in (Not_kw s) = schema_defects s"

text \<open>
  Modelled from the spec: the contract of the engine. A defective schema is a
  \<^verbatim>\<open>SchemaError\<close>, "distinct from" an invalid document, whatever the document; otherwise the
  outcome is \<^verbatim>\<open>Valid\<close> (the call returns) or \<^verbatim>\<open>Invalid\<close> with the violation the walk stops
  at.
\<close>

definition validation_engine :: "yaml \<Rightarrow> schema \<Rightarrow> raised" where
  "validation_engine d s =
     (case schema_defects s of
        m # _ \<Rightarrow> Raised_SchemaError m
      | [] \<Rightarrow>
          (case first_violation d s of
             None \<Rightarrow> Returned
           | Some e \<Rightarrow> Raised_ValidationError e))"

text \<open>A run of the program in which the library is this engine.\<close>

definition with_engine :: "schema env \<Rightarrow> schema env" where
  "with_engine w = w\<lparr>jsonschema_validate := validation_engine\<rparr>"

section \<open>The wording of the specification, for comparison\<close>

text \<open>
  The breadcrumb of section 4.5 as the specification words it, "root, then segment, then
  segment": the text \<open>root\<close> for the empty path, otherwise the segments from left to
  right with an arrow between two of them. \<open>trail\<close> is the same without a text for the
  empty path.
\<close>

fun breadcrumb :: "seg list \<Rightarrow> string" where
  "breadcrumb [] = ''root''"
| "breadcrumb (s # ss) = foldl (\<lambda>acc x. acc @ '' -> '' @ str_seg x) (str_seg s) ss"

fun trail :: "seg list \<Rightarrow> string" where
  "trail [] = []"
| "trail (s # ss) = foldl (\<lambda>acc x. acc @ '' -> '' @ str_seg x) (str_seg s) ss"

text \<open>The schema path a run of \<^verbatim>\<open>main\<close> goes on with, when it gets that far: the second
  argument if given, otherwise the inferred path.\<close>

definition resolved_schema_path :: "pypath \<Rightarrow> pypath option \<Rightarrow> pypath option" where
  "resolved_schema_path yaml_path schema_file =
     (case schema_file of
        Some given \<Rightarrow> Some given
      | None \<Rightarrow> (case infer_schema_path yaml_path of Inr (Some p) \<Rightarrow> Some p | _ \<Rightarrow> None))"

section \<open>An example run\<close>

text \<open>
  A small world for the concrete instances below: one document under
  \<^verbatim>\<open>samples/person/\<close> and its schema under \<^verbatim>\<open>schemas/person/\<close> (scenario A of the
  specification), both existing and readable, and variants of it in which the document
  is malformed, is an empty mapping, is the number 0, or in which no file exists or none
  is readable. Read as JSON the document is a parse error; read as YAML the schema is a
  mapping.
\<close>

definition example_schema :: schema where
  "example_schema =
     Schema [Properties_kw [(''age'', Schema [Type_kw ''integer''])],
             Required_kw [''name'', ''age'']]"

definition example_document :: yaml where
  "example_document = YMap [(''name'', YStr ''Alice''), (''age'', YInt 30)]"

definition example_path :: pypath where
  "example_path =
     \<lparr> parts = [''samples'', ''person'', ''alice.yml''], as_str = ''samples/person/alice.yml'' \<rparr>"

definition example_env :: "schema env" where
  "example_env =
     \<lparr> read_json = (\<lambda>p. if p = ''schemas/person/person.schema.json''
                          then Loaded example_schema
                          else if p = ''samples/person/alice.yml''
                          then ParseFailure ''Expecting value: line 1 column 1 (char 0)''
                          else FileNotFound),
       read_yaml = (\<lambda>p. if p = ''samples/person/alice.yml''
                          then Loaded example_document
                          else if p = ''schemas/person/person.schema.json''
                          then Loaded (YMap [(''properties'',
                                              YMap [(''age'', YMap [(''type'', YStr ''integer'')])]),
                                             (''required'', YSeq [YStr ''name'', YStr ''age''])])
                          else FileNotFound),
       jsonschema_validate = validation_engine,
       path_exists = (\<lambda>p. p = ''samples/person/alice.yml''
                             \<or> p = ''schemas/person/person.schema.json''),
       path_readable = (\<lambda>p. p = ''samples/person/alice.yml''
                               \<or> p = ''schemas/person/person.schema.json'') \<rparr>"

definition malformed_yaml_env :: "schema env" where
  "malformed_yaml_env =
     example_env\<lparr>read_yaml := (\<lambda>p. ParseFailure ''found unexpected end of stream'')\<rparr>"

definition empty_mapping_env :: "schema env" where
  "empty_mapping_env = example_env\<lparr>read_yaml := (\<lambda>p. Loaded (YMap []))\<rparr>"

definition zero_document_env :: "schema env" where
  "zero_document_env = example_env\<lparr>read_yaml := (\<lambda>p. Loaded (YInt 0))\<rparr>"

definition absent_file_env :: "schema env" where
  "absent_file_env =
     \<lparr> read_json = (\<lambda>p. FileNotFound),
       read_yaml = (\<lambda>p. FileNotFound),
       jsonschema_validate = validation_engine,
       path_exists = (\<lambda>p. False),
       path_readable = (\<lambda>p. False) \<rparr>"

definition unreadable_file_env :: "schema env" where
  "unreadable_file_env =
     example_env\<lparr>read_json := (\<lambda>p. OtherFailure ''[Errno 13] Permission denied''),
                  read_yaml := (\<lambda>p. OtherFailure ''[Errno 13] Permission denied''),
                  path_readable := (\<lambda>p. False)\<rparr>"

lemmas fixture_defs =
  example_schema_def example_document_def example_path_def example_env_def
  malformed_yaml_env_def empty_mapping_env_def zero_document_env_def absent_file_env_def
  unreadable_file_env_def

section \<open>Properties of the helpers\<close>

lemma tuple_index_first:
  "x \<notin> set pre \<Longrightarrow> tuple_index (pre @ x # rest) x = Inr (length pre)"
  by (induction pre) auto

lemma infer_at_first_anchor:
  assumes "parts p = pre @ ''samples'' # rest" and "''samples'' \<notin> set pre"
  shows "infer_schema_path p =
           (case rest of [] \<Rightarrow> Inl IndexError | X # post \<Rightarrow> Inr (Some (schema_path_for X)))"
  using assms tuple_index_first [of "''samples''" pre rest]
  by (cases rest) (simp_all add: infer_schema_path_def subscript_def nth_append)

lemma infer_without_anchor:
  "''samples'' \<notin> set (parts p) \<Longrightarrow> infer_schema_path p = Inr None"
  by (simp add: infer_schema_path_def)

lemma falsy_values:
  "\<not> truthy d \<longleftrightarrow> d \<in> {YNull, YMap [], YSeq [], YInt 0, YFloat 0, YBool False, YStr []}"
  by (cases d) auto

lemma join_snoc:
  "join sep (xs @ [y]) = (if xs = [] then y else join sep xs @ sep @ y)"
  by (induction sep xs rule: join.induct) auto

lemma foldl_arrow:
  "foldl (\<lambda>acc x. acc @ '' -> '' @ str_seg x) a ss = join '' -> '' (a # map str_seg ss)"
proof (induction ss rule: rev_induct)
  case Nil
  show ?case by simp
next
  case (snoc x xs)
  have "join '' -> '' (a # map str_seg (xs @ [x]))
        = join '' -> '' ((a # map str_seg xs) @ [str_seg x])" by simp
  also have "\<dots> = join '' -> '' (a # map str_seg xs) @ '' -> '' @ str_seg x"
    by (simp only: join_snoc) simp
  finally show ?case using snoc by simp
qed

lemma path_str_breadcrumb: "path_str p = breadcrumb p"
proof (cases p)
  case Nil
  then show ?thesis by (simp add: path_str_def)
next
  case (Cons a list)
  then show ?thesis using foldl_arrow [of "str_seg a" list] by (simp add: path_str_def)
qed

lemma join_trail: "join '' -> '' (map str_seg p) = trail p"
proof (cases p)
  case Nil
  then show ?thesis by simp
next
  case (Cons a list)
  then show ?thesis using foldl_arrow [of "str_seg a" list] by simp
qed

lemma schema_error_line_distinct:
  "''Schema Error: '' @ m \<notin> set (report_validation_error e)"
  by (simp add: report_validation_error_def)

lemma validate_result:
  "fst (validate w self) =
     (if \<not> truthy (data self) then Inr False
      else case jsonschema_validate w (data self) (schema self) of
             Returned \<Rightarrow> Inr True
           | Raised_ValidationError e \<Rightarrow> Inr False
           | Raised_SchemaError m \<Rightarrow> Inr False
           | Raised_Other x \<Rightarrow> Inl (LibraryError x))"
  by (simp add: validate_def split: raised.splits)

lemma validate_and_report_result:
  "fst (validate_and_report w self) =
     (case read_yaml w (as_str (yaml_file self)) of
        Loaded d \<Rightarrow> fst (validate w (self\<lparr>data := d\<rparr>))
      | _ \<Rightarrow> Inr False)"
  by (simp add: validate_and_report_def load_yaml_def Let_def
           split: read.splits prod.splits sum.splits bool.splits)

lemma main_result:
  "fst (main w y sf) =
     (case sf of
        None \<Rightarrow>
          (case infer_schema_path y of
             Inl e \<Rightarrow> Inl e
           | Inr None \<Rightarrow> Inr 1
           | Inr (Some sp) \<Rightarrow>
               (case read_json w (as_str sp) of
                  Loaded sch \<Rightarrow>
                    (case fst (validate_and_report w (init y sch)) of
                       Inl x \<Rightarrow> Inl x | Inr True \<Rightarrow> Inr 0 | Inr False \<Rightarrow> Inr 1)
                | _ \<Rightarrow> Inr 1))
      | Some sp \<Rightarrow>
          (case read_json w (as_str sp) of
             Loaded sch \<Rightarrow>
               (case fst (validate_and_report w (init y sch)) of
                  Inl x \<Rightarrow> Inl x | Inr True \<Rightarrow> Inr 0 | Inr False \<Rightarrow> Inr 1)
           | _ \<Rightarrow> Inr 1))"
  by (simp add: main_def load_json_schema_def Let_def
           split: option.splits sum.splits read.splits prod.splits bool.splits)

lemma main_status_0_or_1: "exit_status (fst (main w y sf)) \<in> {0, 1}"
  by (simp add: main_result split: option.splits sum.splits read.splits bool.splits)

lemma main_status_cases:
  "resolved_schema_path y sf = None \<Longrightarrow> exit_status (fst (main w y sf)) = 1"
  "resolved_schema_path y sf = Some sp \<Longrightarrow> \<forall>sch. read_json w (as_str sp) \<noteq> Loaded sch \<Longrightarrow>
     exit_status (fst (main w y sf)) = 1"
  "resolved_schema_path y sf = Some sp \<Longrightarrow> read_json w (as_str sp) = Loaded sch \<Longrightarrow>
     \<forall>d. read_yaml w (as_str y) \<noteq> Loaded d \<Longrightarrow> exit_status (fst (main w y sf)) = 1"
  "resolved_schema_path y sf = Some sp \<Longrightarrow> read_json w (as_str sp) = Loaded sch \<Longrightarrow>
     read_yaml w (as_str y) = Loaded d \<Longrightarrow> truthy d \<Longrightarrow>
     exit_status (fst (main w y sf)) =
       (case jsonschema_validate w d sch of Returned \<Rightarrow> 0 | _ \<Rightarrow> 1)"
  by (auto simp add: main_result validate_and_report_result validate_result init_def
        resolved_schema_path_def
        split: option.splits sum.splits read.splits bool.splits raised.splits if_splits)

lemma with_engine_simps:
  "jsonschema_validate (with_engine w) = validation_engine"
  "read_yaml (with_engine w) = read_yaml w"
  "read_json (with_engine w) = read_json w"
  by (simp_all add: with_engine_def)


section \<open>Schema path inference: the claims\<close>

text \<open>
  C2, as amended. The anchor is the first component \<^verbatim>\<open>samples\<close> of the path, the one
  \<^verbatim>\<open>parts.index\<close> finds. For every document path in which that first anchor is followed by a
  component \<open>X\<close>, \<^verbatim>\<open>infer_schema_path\<close> returns the path \<^verbatim>\<open>schemas/X/X.schema.json\<close>; for every
  path with no component \<^verbatim>\<open>samples\<close> it returns \<^verbatim>\<open>None\<close>.
\<close>

theorem infer_schema_path_first_anchor:
  "(parts p = pre @ ''samples'' # X # post \<and> ''samples'' \<notin> set pre \<longrightarrow>
      infer_schema_path p = Inr (Some (schema_path_for X)) \<and>
      as_str (schema_path_for X) = ''schemas/'' @ X @ ''/'' @ X @ ''.schema.json'') \<and>
   (''samples'' \<notin> set (parts p) \<longrightarrow> infer_schema_path p = Inr None)"
  using infer_at_first_anchor [of p pre "X # post"] infer_without_anchor [of p]
  by (simp add: schema_path_for_def)

theorem infer_schema_path_first_anchor_witness:
  "infer_schema_path \<lparr> parts = [''samples'', ''test-case'', ''gsma_4.4.2.2_TC.yml''],
                        as_str = ''samples/test-case/gsma_4.4.2.2_TC.yml'' \<rparr>
     = Inr (Some (schema_path_for ''test-case'')) \<and>
   as_str (schema_path_for ''test-case'') = ''schemas/test-case/test-case.schema.json'' \<and>
   infer_schema_path \<lparr> parts = [''data'', ''a.yml''], as_str = ''data/a.yml'' \<rparr> = Inr None"
  using infer_schema_path_first_anchor
          [of "\<lparr> parts = [''samples'', ''test-case'', ''gsma_4.4.2.2_TC.yml''],
                 as_str = ''samples/test-case/gsma_4.4.2.2_TC.yml'' \<rparr>" "[]" "''test-case''"
              "[''gsma_4.4.2.2_TC.yml'']"]
        infer_schema_path_first_anchor
          [of "\<lparr> parts = [''data'', ''a.yml''], as_str = ''data/a.yml'' \<rparr>" "[]" "''x''" "[]"]
  by simp

text \<open>
  C2 as stated fails where the anchor occurs twice: the path \<^verbatim>\<open>samples/b/samples/c\<close> contains
  \<^verbatim>\<open>samples\<close> followed by \<^verbatim>\<open>c\<close>, and the result is \<^verbatim>\<open>schemas/b/b.schema.json\<close>.
\<close>

theorem infer_schema_path_later_anchor_counterexample:
  "[''samples'', ''b'', ''samples'', ''c''] = [''samples'', ''b''] @ ''samples'' # ''c'' # [] \<and>
   infer_schema_path \<lparr> parts = [''samples'', ''b'', ''samples'', ''c''],
                        as_str = ''samples/b/samples/c'' \<rparr>
     = Inr (Some (schema_path_for ''b'')) \<and>
   as_str (schema_path_for ''b'') = ''schemas/b/b.schema.json'' \<and>
   as_str (schema_path_for ''b'') \<noteq> ''schemas/c/c.schema.json''"
  by (simp add: infer_schema_path_def subscript_def schema_path_for_def)

text \<open>
  C10, as amended. \<^verbatim>\<open>infer_schema_path\<close> is not total: it raises exactly when the first
  component \<^verbatim>\<open>samples\<close> of the path is its last component, and what it raises then is
  \<^verbatim>\<open>IndexError\<close>.
\<close>

theorem infer_schema_path_raises_iff:
  "((\<exists>e. infer_schema_path p = Inl e) \<longleftrightarrow>
      (\<exists>pre. parts p = pre @ [''samples''] \<and> ''samples'' \<notin> set pre)) \<and>
   (parts p = pre @ [''samples''] \<and> ''samples'' \<notin> set pre \<longrightarrow>
      infer_schema_path p = Inl IndexError)"
proof -
  have raise: "infer_schema_path p = Inl IndexError"
    if "parts p = pre' @ [''samples'']" and "''samples'' \<notin> set pre'" for pre'
    using infer_at_first_anchor [of p pre' "[]"] that by simp
  have "\<exists>pre'. parts p = pre' @ [''samples''] \<and> ''samples'' \<notin> set pre'"
    if "infer_schema_path p = Inl e" for e
  proof (cases "''samples'' \<in> set (parts p)")
    case False
    with that show ?thesis by (simp add: infer_without_anchor)
  next
    case True
    then obtain pre' rest where sp: "parts p = pre' @ ''samples'' # rest" "''samples'' \<notin> set pre'"
      by (meson split_list_first)
    with that infer_at_first_anchor [of p pre' rest] have "rest = []"
      by (cases rest) simp_all
    with sp show ?thesis by auto
  qed
  with raise show ?thesis by blast
qed

theorem infer_schema_path_raises_iff_witness:
  "infer_schema_path \<lparr> parts = [''data'', ''samples''], as_str = ''data/samples'' \<rparr>
     = Inl IndexError"
  using infer_schema_path_raises_iff
          [of "\<lparr> parts = [''data'', ''samples''], as_str = ''data/samples'' \<rparr>" "[''data'']"]
  by simp

text \<open>
  C10 as stated fails where an earlier anchor has a successor: the last component of
  \<^verbatim>\<open>samples/x/samples\<close> is \<^verbatim>\<open>samples\<close>, and the function returns \<^verbatim>\<open>schemas/x/x.schema.json\<close>.
\<close>

theorem infer_schema_path_last_anchor_counterexample:
  "last [''samples'', ''x'', ''samples''] = ''samples'' \<and>
   infer_schema_path \<lparr> parts = [''samples'', ''x'', ''samples''],
                        as_str = ''samples/x/samples'' \<rparr>
     = Inr (Some (schema_path_for ''x''))"
  by (simp add: infer_schema_path_def subscript_def)

section \<open>Loading and the guard on the loaded data: the claims\<close>

text \<open>
  C5. For every input file on which \<^verbatim>\<open>yaml.safe_load\<close> raises \<^verbatim>\<open>YAMLError\<close> (the file is not
  well-formed YAML), \<^verbatim>\<open>load_yaml\<close> fails with the parse error, and \<^verbatim>\<open>validate_and_report\<close>
  returns \<^verbatim>\<open>False\<close> right after it: the run prints the header, the parse error and the
  failure banner, never calls the validation engine, and never enters \<^verbatim>\<open>validate\<close> (whose
  guard would print its own line).
\<close>

theorem malformed_yaml_never_reaches_engine:
  assumes "read_yaml w (as_str (yaml_file self)) = ParseFailure m"
  shows "load_yaml w self = (False, [Print (''Error parsing YAML: '' @ m)], self) \<and>
         validate_and_report w self =
           (Inr False,
            [Print (''Validating: '' @ as_str (yaml_file self)),
             Print (replicate 80 (CHR ''-'')),
             Print (''Error parsing YAML: '' @ m),
             Print failed_banner]) \<and>
         (\<forall>d s. Validate_call d s \<notin> set (snd (validate_and_report w self))) \<and>
         Print ''Error: No data loaded. Call load_yaml() first.''
           \<notin> set (snd (validate_and_report w self))"
proof -
  have l: "load_yaml w self = (False, [Print (''Error parsing YAML: '' @ m)], self)"
    using assms by (simp add: load_yaml_def)
  have v: "validate_and_report w self =
           (Inr False,
            [Print (''Validating: '' @ as_str (yaml_file self)),
             Print (replicate 80 (CHR ''-'')),
             Print (''Error parsing YAML: '' @ m),
             Print failed_banner])"
    by (simp add: validate_and_report_def l)
  have n: "failed_banner \<noteq> ''Error: No data loaded. Call load_yaml() first.''"
    by (simp add: failed_banner_def newline_def)
  have r: "replicate 80 (CHR ''-'') \<noteq> ''Error: No data loaded. Call load_yaml() first.''"
    by (simp add: numeral_eq_Suc)
  show ?thesis using l v n r by simp
qed

theorem malformed_yaml_never_reaches_engine_witness:
  "validate_and_report malformed_yaml_env (init example_path example_schema) =
     (Inr False,
      [Print ''Validating: samples/person/alice.yml'',
       Print (replicate 80 (CHR ''-'')),
       Print ''Error parsing YAML: found unexpected end of stream'',
       Print failed_banner])"
  using malformed_yaml_never_reaches_engine
          [of malformed_yaml_env "init example_path example_schema" "''found unexpected end of stream''"]
  by (simp add: fixture_defs init_def)

text \<open>
  C9. For every document that loads to a false value (\<^verbatim>\<open>None\<close>, an empty mapping, an empty
  sequence, \<^verbatim>\<open>0\<close>, \<^verbatim>\<open>0.0\<close>, \<^verbatim>\<open>False\<close> or the empty string; by \<open>falsy_values\<close> these are all of
  them), \<^verbatim>\<open>validate\<close> returns \<^verbatim>\<open>False\<close> with the line \<^verbatim>\<open>No data loaded\<close> and without a call of
  the validation engine, whatever the schema and whatever the engine would answer.
\<close>

theorem falsy_document_no_data_loaded:
  assumes "read_yaml w (as_str (yaml_file self)) = Loaded d"
    and "d \<in> {YNull, YMap [], YSeq [], YInt 0, YFloat 0, YBool False, YStr []}"
  shows "load_yaml w self = (True, [], self\<lparr>data := d\<rparr>) \<and>
         validate w (self\<lparr>data := d\<rparr>) =
           (Inr False, [Print ''Error: No data loaded. Call load_yaml() first.'']) \<and>
         validate_and_report w self =
           (Inr False,
            [Print (''Validating: '' @ as_str (yaml_file self)),
             Print (replicate 80 (CHR ''-'')),
             Print ''Error: No data loaded. Call load_yaml() first.'',
             Print failed_banner]) \<and>
         (\<forall>x s. Validate_call x s \<notin> set (snd (validate_and_report w self)))"
proof -
  have f: "\<not> truthy d" using assms(2) by (simp add: falsy_values)
  have l: "load_yaml w self = (True, [], self\<lparr>data := d\<rparr>)"
    using assms(1) by (simp add: load_yaml_def)
  have v: "validate w (self\<lparr>data := d\<rparr>) =
           (Inr False, [Print ''Error: No data loaded. Call load_yaml() first.''])"
    using f by (simp add: validate_def)
  show ?thesis by (simp add: validate_and_report_def l v)
qed

theorem falsy_document_no_data_loaded_witness:
  "validation_engine (YMap []) (Schema []) = Returned \<and>
   validate_and_report empty_mapping_env (init example_path (Schema [])) =
     (Inr False,
      [Print ''Validating: samples/person/alice.yml'',
       Print (replicate 80 (CHR ''-'')),
       Print ''Error: No data loaded. Call load_yaml() first.'',
       Print failed_banner])"
  using falsy_document_no_data_loaded
          [of empty_mapping_env "init example_path (Schema [])" "YMap []"]
  by (simp add: fixture_defs init_def validation_engine_def)


section \<open>The reports of one validation: the claims\<close>

text \<open>
  C7, as amended. For every \<^verbatim>\<open>ValidationError\<close> the handler prints the message, then the
  failure path as a breadcrumb of its segments in order, \<^verbatim>\<open>root\<close> when it is empty, then
  the schema path as such a breadcrumb when it is not empty and no line for it when it is
  empty. The handler raises nothing: \<^verbatim>\<open>validate\<close> returns \<^verbatim>\<open>False\<close> with exactly these lines
  after the call of the engine.
\<close>

theorem report_renders_breadcrumbs:
  "report_validation_error e =
     [''Validation Error: '' @ message e, ''Failed at: '' @ breadcrumb (path e)]
     @ (if schema_path e = [] then [] else [''Schema path: '' @ trail (schema_path e)]) \<and>
   (truthy (data self) \<and>
    jsonschema_validate w (data self) (schema self) = Raised_ValidationError e \<longrightarrow>
      validate w self =
        (Inr False,
         Validate_call (data self) (schema self) # map Print (report_validation_error e)))"
  by (simp add: report_validation_error_def path_str_breadcrumb join_trail validate_def)

theorem report_renders_breadcrumbs_witness:
  "report_validation_error
     (ValidationError ''boom'' [Key ''steps'', Index 12, Key ''age'']
        [Key ''properties'', Key ''steps'', Key ''items'', Key ''properties'', Key ''age'', Key ''type''])
   = [''Validation Error: boom'',
      ''Failed at: steps -> 12 -> age'',
      ''Schema path: properties -> steps -> items -> properties -> age -> type''] \<and>
   validate example_env
     \<lparr> yaml_file = example_path, data = YMap [(''age'', YStr ''thirty'')],
       schema = Schema [Properties_kw [(''age'', Schema [Type_kw ''integer''])]] \<rparr>
   = (Inr False,
      [Validate_call (YMap [(''age'', YStr ''thirty'')])
         (Schema [Properties_kw [(''age'', Schema [Type_kw ''integer''])]]),
       Print (''Validation Error: value is not of type '' @ apostrophe @ ''integer'' @ apostrophe),
       Print ''Failed at: age'',
       Print ''Schema path: properties -> age -> type''])"
  using report_renders_breadcrumbs
          [of "ValidationError ''boom'' [Key ''steps'', Index 12, Key ''age'']
                 [Key ''properties'', Key ''steps'', Key ''items'', Key ''properties'', Key ''age'', Key ''type'']"
              "\<lparr> yaml_file = example_path, data = YMap [(''age'', YStr ''thirty'')],
                 schema = Schema [Properties_kw [(''age'', Schema [Type_kw ''integer''])]] \<rparr>"
              example_env]
        report_renders_breadcrumbs
          [of "ValidationError (''value is not of type '' @ apostrophe @ ''integer'' @ apostrophe)
                 [Key ''age''] [Key ''properties'', Key ''age'', Key ''type'']"
              "\<lparr> yaml_file = example_path, data = YMap [(''age'', YStr ''thirty'')],
                 schema = Schema [Properties_kw [(''age'', Schema [Type_kw ''integer''])]] \<rparr>"
              example_env]
  by (simp add: fixture_defs validation_engine_def type_violation_def under_property_def
        digit_def supported_types_def apostrophe_def)

text \<open>
  C7 as stated fails for an empty schema path: the failure path is rendered as \<^verbatim>\<open>root\<close>,
  the schema path is not rendered at all.
\<close>

theorem report_empty_schema_path_counterexample:
  "report_validation_error (ValidationError ''boom'' [] []) =
     [''Validation Error: boom'', ''Failed at: root''] \<and>
   ''Schema path: root'' \<notin> set (report_validation_error (ValidationError ''boom'' [] []))"
  by (simp add: report_validation_error_def path_str_def)

section \<open>The exit status: the claim\<close>

text \<open>
  C4, as amended. The help option ends a run with status 0 and a command line that
  \<^verbatim>\<open>click\<close> rejects, also for a path argument that does not exist or is not readable, ends
  it with status 2, both before \<^verbatim>\<open>main\<close> is called. When \<^verbatim>\<open>main\<close> is called its status is 0
  or 1: 1 when no schema is given and none can be inferred, 1 when the schema or the
  document does not load, and for a document that loads to a true value 0 when the
  engine accepts it and 1 otherwise. No run ends with another status than 0, 1 or 2.
\<close>

theorem exit_status_of_an_invocation:
  "fst (cli w Help_requested) = Inr 0 \<and>
   fst (cli w Rejected) = Inr 2 \<and>
   (\<not> path_accepted w y \<or> (\<exists>g. sf = Some g \<and> \<not> path_accepted w g) \<longrightarrow>
      fst (cli w (Arguments y sf)) = Inr 2) \<and>
   (path_accepted w y \<and> (\<forall>g. sf = Some g \<longrightarrow> path_accepted w g) \<longrightarrow>
      fst (cli w (Arguments y sf)) = fst (main w y sf)) \<and>
   exit_status (fst (main w y sf)) \<in> {0, 1} \<and>
   exit_status (fst (cli w cl)) \<in> {0, 1, 2} \<and>
   (resolved_schema_path y sf = None \<longrightarrow> exit_status (fst (main w y sf)) = 1) \<and>
   (resolved_schema_path y sf = Some sp \<and> (\<forall>sch. read_json w (as_str sp) \<noteq> Loaded sch) \<longrightarrow>
      exit_status (fst (main w y sf)) = 1) \<and>
   (resolved_schema_path y sf = Some sp \<and> read_json w (as_str sp) = Loaded sch \<and>
    (\<forall>d. read_yaml w (as_str y) \<noteq> Loaded d) \<longrightarrow>
      exit_status (fst (main w y sf)) = 1) \<and>
   (resolved_schema_path y sf = Some sp \<and> read_json w (as_str sp) = Loaded sch \<and>
    read_yaml w (as_str y) = Loaded d \<and> truthy d \<longrightarrow>
      exit_status (fst (main w y sf)) =
        (case jsonschema_validate w d sch of Returned \<Rightarrow> 0 | _ \<Rightarrow> 1))"
proof -
  have m: "exit_status (fst (main w y' sf')) \<in> {0, 1}" for y' sf'
    by (rule main_status_0_or_1)
  have c: "exit_status (fst (cli w cl)) \<in> {0, 1, 2}"
  proof (cases cl)
    case (Arguments y' sf')
    then show ?thesis
      using m [of y' sf'] by (auto simp add: cli_def usage_exit_code_def split: option.splits)
  qed (simp_all add: cli_def help_exit_code_def usage_exit_code_def)
  have a: "\<not> path_accepted w y \<or> (\<exists>g. sf = Some g \<and> \<not> path_accepted w g) \<longrightarrow>
      fst (cli w (Arguments y sf)) = Inr 2"
    by (auto simp add: cli_def usage_exit_code_def split: option.splits)
  have b: "path_accepted w y \<and> (\<forall>g. sf = Some g \<longrightarrow> path_accepted w g) \<longrightarrow>
      fst (cli w (Arguments y sf)) = fst (main w y sf)"
    by (auto simp add: cli_def split: option.splits)
  have h: "fst (cli w Help_requested) = Inr 0" "fst (cli w Rejected) = Inr 2"
    by (simp_all add: cli_def help_exit_code_def usage_exit_code_def)
  have r1: "resolved_schema_path y sf = None \<longrightarrow> exit_status (fst (main w y sf)) = 1"
    by (intro impI; (elim conjE)?; rule main_status_cases(1); assumption)
  have r2: "resolved_schema_path y sf = Some sp \<and> (\<forall>sch. read_json w (as_str sp) \<noteq> Loaded sch) \<longrightarrow>
      exit_status (fst (main w y sf)) = 1"
    by (intro impI; (elim conjE)?; rule main_status_cases(2); assumption)
  have r3: "resolved_schema_path y sf = Some sp \<and> read_json w (as_str sp) = Loaded sch \<and>
    (\<forall>d. read_yaml w (as_str y) \<noteq> Loaded d) \<longrightarrow>
      exit_status (fst (main w y sf)) = 1"
    by (intro impI; (elim conjE)?; rule main_status_cases(3); assumption)
  have r4: "resolved_schema_path y sf = Some sp \<and> read_json w (as_str sp) = Loaded sch \<and>
    read_yaml w (as_str y) = Loaded d \<and> truthy d \<longrightarrow>
      exit_status (fst (main w y sf)) =
        (case jsonschema_validate w d sch of Returned \<Rightarrow> 0 | _ \<Rightarrow> 1)"
    by (intro impI; (elim conjE)?; rule main_status_cases(4); assumption)
  show ?thesis
    by (intro conjI) (rule h a b c m r1 r2 r3 r4)+
qed

theorem exit_status_of_an_invocation_witness:
  "fst (cli example_env (Arguments example_path None)) = Inr 0 \<and>
   fst (cli example_env (Arguments example_path (Some example_path))) = Inr 1 \<and>
   fst (cli malformed_yaml_env (Arguments example_path None)) = Inr 1 \<and>
   fst (cli unreadable_file_env (Arguments example_path None)) = Inr 2 \<and>
   fst (cli example_env Help_requested) = Inr 0"
  using exit_status_of_an_invocation [of example_env example_path None]
  by (simp add: fixture_defs cli_def path_accepted_def help_exit_code_def usage_exit_code_def
        main_result validate_and_report_result validate_result
        init_def infer_schema_path_def subscript_def schema_path_for_def
        validation_engine_def supported_types_def missing_def)

text \<open>
  C4 as stated fails for a document that does not exist: \<^verbatim>\<open>click\<close> ends the run with its
  usage status 2, and \<^verbatim>\<open>main\<close>, which would print the load error and end with 1, is not
  called.
\<close>

theorem exit_status_absent_file_counterexample:
  "exit_status (fst (cli absent_file_env (Arguments example_path None))) = 2"
  by (simp add: fixture_defs cli_def path_accepted_def usage_exit_code_def)

section \<open>The guard of validate on a loaded document: the claims\<close>

text \<open>
  C1, C3 and C6 say what validation answers for every document. The program answers so
  for a document that loads to a true value. For one that loads to a false value (an
  empty file, an empty mapping or sequence, 0, false, the empty string) the guard
  \<^verbatim>\<open>if not self.data\<close> of \<^verbatim>\<open>validate\<close> takes the loaded document for no document: it prints
  \<^verbatim>\<open>No data loaded. Call load_yaml() first.\<close> after \<^verbatim>\<open>load_yaml\<close> was called and succeeded,
  and the engine is not called.
\<close>

text \<open>
  C1, on the program. For every loaded document that the engine accepts, \<^verbatim>\<open>validate\<close>
  returns \<^verbatim>\<open>True\<close> when the document is a true value and \<^verbatim>\<open>False\<close>, with the line of the
  guard, when it is a false one. The claim says Valid for both: the document \<^verbatim>\<open>0\<close>
  satisfies the schema \<^verbatim>\<open>{"type": "integer"}\<close> and is reported invalid, while the document
  of scenario A is reported valid.
\<close>

theorem accepted_document_valid_only_if_true:
  "read_yaml w (as_str (yaml_file self)) = Loaded d \<and>
   jsonschema_validate w d (schema self) = Returned \<longrightarrow>
     validate w (self\<lparr>data := d\<rparr>) =
       (if truthy d then (Inr True, [Validate_call d (schema self)])
        else (Inr False, [Print ''Error: No data loaded. Call load_yaml() first.''])) \<and>
     fst (validate_and_report w self) = Inr (truthy d)"
  by (simp add: validate_def validate_and_report_result validate_result)

theorem accepted_document_valid_only_if_true_witness:
  "validation_engine (YInt 0) (Schema [Type_kw ''integer'']) = Returned \<and>
   validate_and_report zero_document_env (init example_path (Schema [Type_kw ''integer''])) =
     (Inr False,
      [Print ''Validating: samples/person/alice.yml'',
       Print (replicate 80 (CHR ''-'')),
       Print ''Error: No data loaded. Call load_yaml() first.'',
       Print failed_banner]) \<and>
   validate example_env
     \<lparr> yaml_file = example_path, data = example_document, schema = example_schema \<rparr>
   = (Inr True, [Validate_call example_document example_schema])"
  using accepted_document_valid_only_if_true
          [of zero_document_env "init example_path (Schema [Type_kw ''integer''])" "YInt 0"]
        accepted_document_valid_only_if_true
          [of example_env "init example_path example_schema" example_document]
  by (simp add: fixture_defs init_def validation_engine_def supported_types_def missing_def
        validate_and_report_def load_yaml_def validate_def)

text \<open>
  C3, on the program. For every document on which the engine raises a violation,
  \<^verbatim>\<open>validate\<close> calls the engine once and reports exactly that one violation when the
  document is a true value, and reports no violation at all, only the line of the guard,
  when it is a false one. The claim says the violation is reported for both: the empty
  mapping violates \<^verbatim>\<open>required: [name]\<close> and the report names no violation, no failure
  path and no schema path.
\<close>

theorem violation_reported_only_if_true:
  "jsonschema_validate w d s = Raised_ValidationError e \<longrightarrow>
     validate w \<lparr> yaml_file = f, data = d, schema = s \<rparr> =
       (if truthy d
        then (Inr False, Validate_call d s # map Print (report_validation_error e))
        else (Inr False, [Print ''Error: No data loaded. Call load_yaml() first.'']))"
  by (simp add: validate_def)

theorem violation_reported_only_if_true_witness:
  "validation_engine (YMap []) (Schema [Required_kw [''name'']])
     = Raised_ValidationError (required_violation ''name'') \<and>
   validate example_env
     \<lparr> yaml_file = example_path, data = YMap [], schema = Schema [Required_kw [''name'']] \<rparr>
   = (Inr False, [Print ''Error: No data loaded. Call load_yaml() first.'']) \<and>
   validate example_env
     \<lparr> yaml_file = example_path, data = YMap [(''age'', YInt 30)],
       schema = Schema [Required_kw [''name'']] \<rparr>
   = (Inr False,
      [Validate_call (YMap [(''age'', YInt 30)]) (Schema [Required_kw [''name'']]),
       Print (''Validation Error: '' @ apostrophe @ ''name'' @ apostrophe
              @ '' is a required property''),
       Print ''Failed at: root'',
       Print ''Schema path: required''])"
  using violation_reported_only_if_true
          [of example_env "YMap []" "Schema [Required_kw [''name'']]"
              "required_violation ''name''" example_path]
        violation_reported_only_if_true
          [of example_env "YMap [(''age'', YInt 30)]" "Schema [Required_kw [''name'']]"
              "required_violation ''name''" example_path]
  by (simp add: fixture_defs validation_engine_def missing_def required_violation_def
        report_validation_error_def path_str_def apostrophe_def)

text \<open>
  C6, on the program with the engine of the specification. For every schema with a
  defect the engine detects, \<^verbatim>\<open>validate\<close> reports the \<^verbatim>\<open>SchemaError\<close> when the document is a
  true value: the one line \<^verbatim>\<open>Schema Error: ...\<close>, which is no line of the report of any
  invalid document and names no failure path. When the document is a false value it
  prints the line of the guard instead, and the defect of the schema is not reported.
  The claim says a \<^verbatim>\<open>SchemaError\<close> for both.
\<close>

theorem schema_defect_reported_only_if_true:
  "schema_defects s = m # ms \<longrightarrow>
     validation_engine d s = Raised_SchemaError m \<and>
     validate (with_engine w) \<lparr> yaml_file = f, data = d, schema = s \<rparr> =
       (if truthy d
        then (Inr False, [Validate_call d s, Print (''Schema Error: '' @ m)])
        else (Inr False, [Print ''Error: No data loaded. Call load_yaml() first.''])) \<and>
     (\<forall>e. ''Schema Error: '' @ m \<notin> set (report_validation_error e))"
  using schema_error_line_distinct [of m]
  by (simp add: validate_def with_engine_simps validation_engine_def)

theorem schema_defect_reported_only_if_true_witness:
  "schema_defects (Schema [Type_kw ''bogus''])
     = [apostrophe @ ''bogus'' @ apostrophe @ '' is not a supported type''] \<and>
   validate example_env
     \<lparr> yaml_file = example_path, data = YMap [], schema = Schema [Type_kw ''bogus''] \<rparr>
   = (Inr False, [Print ''Error: No data loaded. Call load_yaml() first.'']) \<and>
   validate example_env
     \<lparr> yaml_file = example_path, data = example_document, schema = Schema [Type_kw ''bogus''] \<rparr>
   = (Inr False,
      [Validate_call example_document (Schema [Type_kw ''bogus'']),
       Print (''Schema Error: '' @ apostrophe @ ''bogus'' @ apostrophe
              @ '' is not a supported type'')])"
proof -
  have e: "with_engine example_env = example_env"
    by (simp add: with_engine_def example_env_def)
  have d: "schema_defects (Schema [Type_kw ''bogus''])
             = [apostrophe @ ''bogus'' @ apostrophe @ '' is not a supported type'']"
    by (simp add: supported_types_def)
  show ?thesis
    using d
      schema_defect_reported_only_if_true
        [of "Schema [Type_kw ''bogus'']"
            "apostrophe @ ''bogus'' @ apostrophe @ '' is not a supported type''" "[]"
            "YMap []" example_env example_path]
      schema_defect_reported_only_if_true
        [of "Schema [Type_kw ''bogus'']"
            "apostrophe @ ''bogus'' @ apostrophe @ '' is not a supported type''" "[]"
            example_document example_env example_path]
    by (simp add: e example_document_def)
qed

section \<open>Validation with the engine of the specification: the claim\<close>

text \<open>
  C8. A schema of type \<^verbatim>\<open>integer\<close> rejects the value 3.5 and accepts the value 3; a
  schema of type \<^verbatim>\<open>number\<close> accepts both; at the root of the document and at a property.
\<close>

theorem integer_and_number:
  "fst (validate (with_engine w)
          \<lparr> yaml_file = f, data = YFloat (7 / 2), schema = Schema [Type_kw ''integer''] \<rparr>)
     = Inr False \<and>
   fst (validate (with_engine w)
          \<lparr> yaml_file = f, data = YInt 3, schema = Schema [Type_kw ''integer''] \<rparr>)
     = Inr True \<and>
   fst (validate (with_engine w)
          \<lparr> yaml_file = f, data = YFloat (7 / 2), schema = Schema [Type_kw ''number''] \<rparr>)
     = Inr True \<and>
   fst (validate (with_engine w)
          \<lparr> yaml_file = f, data = YInt 3, schema = Schema [Type_kw ''number''] \<rparr>)
     = Inr True \<and>
   fst (validate (with_engine w)
          \<lparr> yaml_file = f, data = YMap [(k, YFloat (7 / 2))],
            schema = Schema [Properties_kw [(k, Schema [Type_kw ''integer''])]] \<rparr>)
     = Inr False \<and>
   fst (validate (with_engine w)
          \<lparr> yaml_file = f, data = YMap [(k, YInt 3)],
            schema = Schema [Properties_kw [(k, Schema [Type_kw ''integer''])]] \<rparr>)
     = Inr True \<and>
   fst (validate (with_engine w)
          \<lparr> yaml_file = f, data = YMap [(k, YFloat (7 / 2))],
            schema = Schema [Properties_kw [(k, Schema [Type_kw ''number''])]] \<rparr>)
     = Inr True \<and>
   fst (validate (with_engine w)
          \<lparr> yaml_file = f, data = YMap [(k, YInt 3)],
            schema = Schema [Properties_kw [(k, Schema [Type_kw ''number''])]] \<rparr>)
     = Inr True"
  by (simp add: validate_def with_engine_simps validation_engine_def supported_types_def)

theorem integer_and_number_witness:
  "validate example_env
     \<lparr> yaml_file = example_path, data = YFloat (7 / 2), schema = Schema [Type_kw ''integer''] \<rparr>
   = (Inr False,
      [Validate_call (YFloat (7 / 2)) (Schema [Type_kw ''integer'']),
       Print (''Validation Error: value is not of type '' @ apostrophe @ ''integer'' @ apostrophe),
       Print ''Failed at: root'',
       Print ''Schema path: type'']) \<and>
   validate example_env
     \<lparr> yaml_file = example_path, data = YInt 3, schema = Schema [Type_kw ''integer''] \<rparr>
   = (Inr True, [Validate_call (YInt 3) (Schema [Type_kw ''integer''])])"
proof -
  have e: "with_engine example_env = example_env"
    by (simp add: with_engine_def example_env_def)
  show ?thesis
    using integer_and_number [of example_env example_path "''age''"]
    by (simp add: e validate_def example_env_def validation_engine_def supported_types_def
          report_validation_error_def type_violation_def path_str_def)
qed


end
